theory Spec2Isabelle
  imports Main
begin

section \<open>Python values\<close>

text \<open>
  The module \<^verbatim>\<open>server/google_directory_service.py\<close> handles JSON payloads of the
  directory API and configuration values. They are modelled by the Python values they
  can be: \<^verbatim>\<open>None\<close>, booleans, integers, strings, lists and dictionaries with
  string keys (an association list, looked up from the front).
\<close>

datatype pyval =
    PNone
  | PBool bool
  | PInt int
  | PStr string
  | PList "pyval list"
  | PDict "(string \<times> pyval) list"

text \<open>Python's truth value testing, as used by \<^verbatim>\<open>if x:\<close> and \<^verbatim>\<open>if not x:\<close>.\<close>

fun py_truthy :: "pyval \<Rightarrow> bool" where
  "py_truthy PNone = False"
| "py_truthy (PBool b) = b"
| "py_truthy (PInt i) = (i \<noteq> 0)"
| "py_truthy (PStr s) = (s \<noteq> [])"
| "py_truthy (PList xs) = (xs \<noteq> [])"
| "py_truthy (PDict kvs) = (kvs \<noteq> [])"

section \<open>Exceptions\<close>

text \<open>
  Every exception the module raises, catches or lets through is a value of
  \<open>error\<close>. \<open>SetupNeeded\<close> is the module's own class (line 37),
  \<open>Exception\<close> is a plain \<^verbatim>\<open>Exception(message)\<close>, \<open>RemoteError\<close> stands for
  any other failure of an external call (network, permissions, quota).
\<close>

datatype error =
    SetupNeeded string
  | AccessTokenRefreshError
  | NotImplementedError
  | Exception string
  | KeyError string
  | TypeError
  | AttributeError
  | RemoteError string

text \<open>\<^verbatim>\<open>d[key]\<close> with a string key: only a dictionary has string subscripts.\<close>

fun py_getitem :: "pyval \<Rightarrow> string \<Rightarrow> error + pyval" where
  "py_getitem (PDict kvs) k =
     (case map_of kvs k of None \<Rightarrow> Inl (KeyError k) | Some v \<Rightarrow> Inr v)"
| "py_getitem _ k = Inl TypeError"

text \<open>\<^verbatim>\<open>d.get(key, default)\<close>: a method of dictionaries only.\<close>

fun py_dict_get :: "pyval \<Rightarrow> string \<Rightarrow> pyval \<Rightarrow> error + pyval" where
  "py_dict_get (PDict kvs) k d =
     (case map_of kvs k of None \<Rightarrow> Inr d | Some v \<Rightarrow> Inr v)"
| "py_dict_get _ k d = Inl AttributeError"

text \<open>
  \<^verbatim>\<open>for member in x\<close>: a list yields its elements, a string its characters, a
  dictionary its keys; the other values are not iterable.
\<close>

fun py_iter :: "pyval \<Rightarrow> error + pyval list" where
  "py_iter (PList xs) = Inr xs"
| "py_iter (PStr s) = Inr (map (\<lambda>c. PStr [c]) s)"
| "py_iter (PDict kvs) = Inr (map (\<lambda>kv. PStr (fst kv)) kvs)"
| "py_iter _ = Inl TypeError"

section \<open>External collaborators and module state\<close>

text \<open>
  Credentials are an opaque token set. \<^verbatim>\<open>credentials.authorize(httplib2.Http())\<close>
  wraps a fresh transport with them, and \<^verbatim>\<open>build\<close> returns a client bound to an
  API name, a version and a transport.
\<close>

datatype credentials = Credentials string

datatype http = AuthorizedHttp credentials

datatype service = Service string string http

definition authorize :: "credentials \<Rightarrow> http" where
  "authorize c = AuthorizedHttp c"

text \<open>
  Every interaction of the module with a store or with the remote API is recorded, in
  order, in a trace. The trace is what the claims about calls made or not made speak of.
\<close>

datatype event =
    StorageGet string
  | LoadPem
  | Build string string http
  | KeyDelete string
  | SettingGet string
  | MemcacheGet string
  | MemcacheSet string "pyval list" nat
  | UsersGet service string
  | UsersUpdate service string pyval
  | MembersList service pyval

text \<open>
  The state the module reads and writes: the datastore entities of kind
  \<^verbatim>\<open>CredentialsModel\<close> by key name, the settings store behind
  \<^verbatim>\<open>datastore.Setting.get\<close>, memcache (each entry with the expiration it was set
  with), and the trace.
\<close>

record state =
  CredentialsModel :: "string \<rightharpoonup> credentials"
  Setting :: "string \<Rightarrow> pyval"
  memcache :: "string \<rightharpoonup> pyval list \<times> nat"
  trace :: "event list"

text \<open>
  The imported modules that are not part of the source file are parameters:
  \<^verbatim>\<open>datastore.CURRENT_DOMAIN\<close>, \<^verbatim>\<open>config.SERVICE_ACCOUNT\<close>,
  \<^verbatim>\<open>setup.LoadCredentialsFromPem\<close>, \<^verbatim>\<open>apiclient.discovery.build\<close> and the
  three \<^verbatim>\<open>execute()\<close> calls of the directory client. A remote call answers as a
  function of the history of events before it, so that the same request may be answered
  differently at different times, and it may fail with any \<open>error\<close>.
\<close>

record env =
  CURRENT_DOMAIN :: string
  SERVICE_ACCOUNT :: pyval
  LoadCredentialsFromPem :: "event list \<Rightarrow> error + credentials"
  build :: "event list \<Rightarrow> string \<Rightarrow> string \<Rightarrow> http \<Rightarrow> error + service"
  users_get :: "event list \<Rightarrow> service \<Rightarrow> string \<Rightarrow> error + pyval"
  users_update :: "event list \<Rightarrow> service \<Rightarrow> string \<Rightarrow> pyval \<Rightarrow> error + unit"
  members_list :: "event list \<Rightarrow> service \<Rightarrow> pyval \<Rightarrow> error + pyval"

text \<open>The appengine user object: \<^verbatim>\<open>user.email()\<close> and \<^verbatim>\<open>user.nickname()\<close>.\<close>

record user =
  email :: string
  nickname :: string

definition record_event :: "event \<Rightarrow> state \<Rightarrow> state" where
  "record_event ev s = s\<lparr>trace := trace s @ [ev]\<rparr>"

text \<open>\<^verbatim>\<open>ndb.Key('CredentialsModel', name).delete()\<close>\<close>

definition Key_delete :: "string \<Rightarrow> state \<Rightarrow> state" where
  "Key_delete name s =
     record_event (KeyDelete name) (s\<lparr>CredentialsModel := (CredentialsModel s)(name := None)\<rparr>)"

text \<open>\<^verbatim>\<open>memcache.set(key, value, time)\<close>\<close>

definition memcache_set :: "string \<Rightarrow> pyval list \<Rightarrow> nat \<Rightarrow> state \<Rightarrow> state" where
  "memcache_set k v t s =
     record_event (MemcacheSet k v t) (s\<lparr>memcache := (memcache s)(k \<mapsto> (v, t))\<rparr>)"

section \<open>The module\<close>

definition API_SERVICE_NAME :: string where
  "API_SERVICE_NAME = ''admin''"

definition DIRECTORY_API_VERSION :: string where
  "DIRECTORY_API_VERSION = ''directory_v1''"

definition MEMCACHE_ADMIN_KEY :: string where
  "MEMCACHE_ADMIN_KEY = ''admins''"

definition MEMCACHE_EXPIRATION_TIME_IN_SECONDS :: nat where
  "MEMCACHE_EXPIRATION_TIME_IN_SECONDS = 600"

text \<open>
  \<^verbatim>\<open>_GetAuthorizedHttp(credentials=None)\<close>, lines 41 to 70. An argument that is
  \<^verbatim>\<open>None\<close> (or not given) is \<open>None\<close>; stored credentials are read from the
  \<^verbatim>\<open>CredentialsModel\<close> entity named by the current domain. \<^verbatim>\<open>setup.LoadCredentialsFromPem\<close> is
  the parameter of \<open>env\<close>: it answers with credentials or fails, and leaves the
  stores of \<open>state\<close> alone.
\<close>

definition GetAuthorizedHttp ::
  "env \<Rightarrow> credentials option \<Rightarrow> state \<Rightarrow> (error + http) \<times> state" where
  "GetAuthorizedHttp e credentials s =
     (case credentials of
        Some c \<Rightarrow> (Inr (authorize c), s)
      | None \<Rightarrow>
          (let s1 = record_event (StorageGet (CURRENT_DOMAIN e)) s in
           case CredentialsModel s1 (CURRENT_DOMAIN e) of
             Some c \<Rightarrow> (Inr (authorize c), s1)
           | None \<Rightarrow>
               if py_truthy (SERVICE_ACCOUNT e) then
                 (case LoadCredentialsFromPem e (trace s1) of
                    Inl err \<Rightarrow> (Inl err, record_event LoadPem s1)
                  | Inr c \<Rightarrow> (Inr (authorize c), record_event LoadPem s1))
               else (Inl (SetupNeeded ''Credentials not in storage''), s1)))"

text \<open>The body of the \<^verbatim>\<open>try\<close> of \<^verbatim>\<open>BuildService\<close>, lines 86 to 89.\<close>

definition BuildService_try ::
  "env \<Rightarrow> credentials option \<Rightarrow> state \<Rightarrow> (error + service) \<times> state" where
  "BuildService_try e credentials s =
     (case GetAuthorizedHttp e credentials s of
        (Inl err, s1) \<Rightarrow> (Inl err, s1)
      | (Inr h, s1) \<Rightarrow>
          (build e (trace s1) API_SERVICE_NAME DIRECTORY_API_VERSION h,
           record_event (Build API_SERVICE_NAME DIRECTORY_API_VERSION h) s1))"

definition invalid_pem_message :: string where
  "invalid_pem_message =
     ''The service account credentials are invalid.  '' @
     ''Check to make sure you have a valid PEM file and you '' @
     ''have removed any extra data attributes that may have '' @
     ''been written to the PEM file when converted from '' @
     ''PKCS12.  The existing PEM key has been revoked and '' @
     ''needs to be updated with a new valid key.''"

text \<open>\<^verbatim>\<open>BuildService(credentials=None)\<close>, lines 73 to 97.\<close>

definition BuildService ::
  "env \<Rightarrow> credentials option \<Rightarrow> state \<Rightarrow> (error + service) \<times> state" where
  "BuildService e credentials s =
     (case BuildService_try e credentials s of
        (r, s1) \<Rightarrow>
          if r = Inl NotImplementedError
          then (Inl (Exception invalid_pem_message), Key_delete (CURRENT_DOMAIN e) s1)
          else (r, s1))"

text \<open>The loop of \<^verbatim>\<open>_GetAdminEmails\<close>, lines 109 and 110.\<close>

fun collect_emails :: "pyval list \<Rightarrow> pyval list \<Rightarrow> error + pyval list" where
  "collect_emails [] admin_emails = Inr admin_emails"
| "collect_emails (member # members) admin_emails =
     (case py_getitem member ''email'' of
        Inl err \<Rightarrow> Inl err
      | Inr em \<Rightarrow> collect_emails members (admin_emails @ [em]))"

definition admin_cache_key :: "env \<Rightarrow> string" where
  "admin_cache_key e = CURRENT_DOMAIN e @ '':'' @ MEMCACHE_ADMIN_KEY"

text \<open>
  \<^verbatim>\<open>_GetAdminEmails()\<close>, lines 100 to 114. Python evaluates
  \<^verbatim>\<open>BuildService()\<close> first, then the argument \<^verbatim>\<open>datastore.Setting.get('admin_group')\<close>,
  then the listing call.
\<close>

definition GetAdminEmails :: "env \<Rightarrow> state \<Rightarrow> (error + pyval list) \<times> state" where
  "GetAdminEmails e s =
     (case BuildService e None s of
        (Inl err, s1) \<Rightarrow> (Inl err, s1)
      | (Inr svc, s1) \<Rightarrow>
          (let s2 = record_event (SettingGet ''admin_group'') s1;
               groupKey = Setting s2 ''admin_group'';
               s3 = record_event (MembersList svc groupKey) s2
           in case members_list e (trace s2) svc groupKey of
                Inl err \<Rightarrow> (Inl err, s3)
              | Inr admin_group_info \<Rightarrow>
                  (case py_getitem admin_group_info ''members'' of
                     Inl err \<Rightarrow> (Inl err, s3)
                   | Inr ms \<Rightarrow>
                       (case py_iter ms of
                          Inl err \<Rightarrow> (Inl err, s3)
                        | Inr members \<Rightarrow>
                            (case collect_emails members [] of
                               Inl err \<Rightarrow> (Inl err, s3)
                             | Inr admin_emails \<Rightarrow>
                                 (Inr admin_emails,
                                  memcache_set (admin_cache_key e) admin_emails
                                    MEMCACHE_EXPIRATION_TIME_IN_SECONDS s3))))))"

text \<open>\<^verbatim>\<open>GetUserInfo(user_email)\<close>, lines 161 to 172.\<close>

definition GetUserInfo :: "env \<Rightarrow> string \<Rightarrow> state \<Rightarrow> (error + pyval) \<times> state" where
  "GetUserInfo e user_email s =
     (case BuildService e None s of
        (Inl err, s1) \<Rightarrow> (Inl err, s1)
      | (Inr svc, s1) \<Rightarrow>
          (users_get e (trace s1) svc user_email, record_event (UsersGet svc user_email) s1))"

text \<open>\<^verbatim>\<open>UpdateUserInfo(user_email, new_user_info)\<close>, lines 175 to 184.\<close>

definition UpdateUserInfo ::
  "env \<Rightarrow> string \<Rightarrow> pyval \<Rightarrow> state \<Rightarrow> (error + unit) \<times> state" where
  "UpdateUserInfo e user_email new_user_info s =
     (case BuildService e None s of
        (Inl err, s1) \<Rightarrow> (Inl err, s1)
      | (Inr svc, s1) \<Rightarrow>
          (users_update e (trace s1) svc user_email new_user_info,
           record_event (UsersUpdate svc user_email new_user_info) s1))"

text \<open>
  \<^verbatim>\<open>IsInAdminGroup(user)\<close>, lines 117 to 158. \<^verbatim>\<open>memcache.get\<close> answers
  \<^verbatim>\<open>None\<close> for a key that is not set; the cached value is the list that
  \<^verbatim>\<open>_GetAdminEmails\<close> stored.
\<close>

definition IsInAdminGroup :: "env \<Rightarrow> user \<Rightarrow> state \<Rightarrow> (error + bool) \<times> state" where
  "IsInAdminGroup e user s =
     (case GetUserInfo e (email user) s of
        (Inl err, s1) \<Rightarrow>
          if err = AccessTokenRefreshError
          then (Inl (SetupNeeded ''oauth token no longer valid''),
                Key_delete (CURRENT_DOMAIN e) s1)
          else (Inl err, s1)
      | (Inr user_info, s1) \<Rightarrow>
          (case py_dict_get user_info ''isAdmin'' (PStr '''') of
             Inl err \<Rightarrow> (Inl err, s1)
           | Inr is_admin \<Rightarrow>
               if py_truthy is_admin then (Inr True, s1)
               else
                 (let s2 = record_event (SettingGet ''admin_group'') s1 in
                  if \<not> py_truthy (Setting s2 ''admin_group'')
                  then (Inl (Exception ''You must configure ADMIN_GROUP in config.py''), s2)
                  else
                    (let s3 = record_event (MemcacheGet (admin_cache_key e)) s2 in
                     case memcache s3 (admin_cache_key e) of
                       Some (cached_admin_emails, t) \<Rightarrow>
                         (Inr (PStr (email user) \<in> set cached_admin_emails), s3)
                     | None \<Rightarrow>
                         (case GetAdminEmails e s3 of
                            (Inl err, s4) \<Rightarrow> (Inl err, s4)
                          | (Inr admin_emails, s4) \<Rightarrow>
                              (Inr (PStr (email user) \<in> set admin_emails), s4))))))"

section \<open>Reading the trace\<close>

fun is_cache_access :: "event \<Rightarrow> bool" where
  "is_cache_access (MemcacheGet k) = True"
| "is_cache_access (MemcacheSet k v t) = True"
| "is_cache_access _ = False"

fun is_members_list :: "event \<Rightarrow> bool" where
  "is_members_list (MembersList svc g) = True"
| "is_members_list _ = False"

fun is_key_delete :: "event \<Rightarrow> bool" where
  "is_key_delete (KeyDelete d) = True"
| "is_key_delete _ = False"

text \<open>The events a run from \<open>s\<close> to \<open>s'\<close> added.\<close>

definition new_events :: "state \<Rightarrow> state \<Rightarrow> event list" where
  "new_events s s' = drop (length (trace s)) (trace s')"

section \<open>An example world\<close>

text \<open>
  A domain \<^verbatim>\<open>x.com\<close> with stored credentials, an admin group whose only member
  is \<^verbatim>\<open>a@x.com\<close>, and a directory in which \<^verbatim>\<open>root@x.com\<close> is the only
  domain admin. The theorems below are instantiated on it and on variants of it.
\<close>

definition ex_env :: env where
  "ex_env =
     \<lparr>CURRENT_DOMAIN = ''x.com'',
      SERVICE_ACCOUNT = PBool False,
      LoadCredentialsFromPem = (\<lambda>h. Inl (RemoteError ''no key file'')),
      build = (\<lambda>h n v t. Inr (Service n v t)),
      users_get = (\<lambda>h svc em.
         Inr (PDict [(''primaryEmail'', PStr em), (''isAdmin'', PBool (em = ''root@x.com''))])),
      users_update = (\<lambda>h svc em body. Inr ()),
      members_list = (\<lambda>h svc g.
         Inr (PDict [(''members'', PList [PDict [(''email'', PStr ''a@x.com'')]])]))\<rparr>"

definition ex_state :: state where
  "ex_state =
     \<lparr>CredentialsModel = [''x.com'' \<mapsto> Credentials ''token''],
      Setting = (\<lambda>k. if k = ''admin_group'' then PStr ''admins@x.com'' else PNone),
      memcache = Map.empty,
      trace = []\<rparr>"

text \<open>The same world with a key file that \<^verbatim>\<open>build\<close> cannot use.\<close>

definition ex_env_invalid_key :: env where
  "ex_env_invalid_key = ex_env\<lparr>build := \<lambda>h n v t. Inl NotImplementedError\<rparr>"

text \<open>Worlds in which the listing call fails, or answers for a group without members.\<close>

definition ex_env_listing_fails :: env where
  "ex_env_listing_fails = ex_env\<lparr>members_list := \<lambda>h svc g. Inl (RemoteError ''quota'')\<rparr>"

definition ex_env_empty_group :: env where
  "ex_env_empty_group =
     ex_env\<lparr>members_list := \<lambda>h svc g. Inr (PDict [(''kind'', PStr ''admin#directory#members'')])\<rparr>"

text \<open>A state with a cached admin list and an unset \<^verbatim>\<open>admin_group\<close>.\<close>

definition ex_state_cached_no_group :: state where
  "ex_state_cached_no_group =
     ex_state\<lparr>Setting := \<lambda>k. PStr '''',
               memcache := [''x.com:admins'' \<mapsto> ([PStr ''a@x.com''], 600)]\<rparr>"

definition ex_user :: "string \<Rightarrow> user" where
  "ex_user em = \<lparr>email = em, nickname = takeWhile (\<lambda>c. c \<noteq> CHR ''@'') em\<rparr>"

section \<open>Frame and trace lemmas\<close>

lemma GetAuthorizedHttp_frame:
  "GetAuthorizedHttp e c s = (r, s1) \<Longrightarrow>
     CredentialsModel s1 = CredentialsModel s \<and> Setting s1 = Setting s \<and> memcache s1 = memcache s"
  by (auto simp: GetAuthorizedHttp_def record_event_def Let_def split: option.splits if_splits sum.splits)

lemma GetAuthorizedHttp_trace:
  "GetAuthorizedHttp e c s = (r, s1) \<Longrightarrow>
     \<exists>evs. trace s1 = trace s @ evs \<and> filter is_cache_access evs = [] \<and>
       filter is_members_list evs = [] \<and> filter is_key_delete evs = []"
  by (auto simp: GetAuthorizedHttp_def record_event_def Let_def split: option.splits if_splits sum.splits)

lemma BuildService_try_frame:
  "BuildService_try e c s = (r, s1) \<Longrightarrow>
     CredentialsModel s1 = CredentialsModel s \<and> Setting s1 = Setting s \<and> memcache s1 = memcache s"
  by (auto simp: BuildService_try_def record_event_def split: prod.splits sum.splits dest: GetAuthorizedHttp_frame)

lemma BuildService_try_trace:
  "BuildService_try e c s = (r, s1) \<Longrightarrow>
     \<exists>evs. trace s1 = trace s @ evs \<and> filter is_cache_access evs = [] \<and>
       filter is_members_list evs = [] \<and> filter is_key_delete evs = []"
  by (auto simp: BuildService_try_def record_event_def split: prod.splits sum.splits dest!: GetAuthorizedHttp_trace)

lemma BuildService_frame:
  "BuildService e c s = (r, s1) \<Longrightarrow> Setting s1 = Setting s \<and> memcache s1 = memcache s"
  by (auto simp: BuildService_def Key_delete_def record_event_def split: prod.splits if_splits dest: BuildService_try_frame)

lemma BuildService_credentials:
  "BuildService e c s = (r, s1) \<Longrightarrow> r \<noteq> Inl (Exception invalid_pem_message) \<Longrightarrow>
     CredentialsModel s1 = CredentialsModel s"
  by (auto simp: BuildService_def Key_delete_def record_event_def split: prod.splits if_splits dest: BuildService_try_frame)

lemma BuildService_trace:
  "BuildService e c s = (r, s1) \<Longrightarrow>
     \<exists>evs. trace s1 = trace s @ evs \<and> filter is_cache_access evs = [] \<and>
       filter is_members_list evs = []"
  by (auto simp: BuildService_def Key_delete_def record_event_def split: prod.splits if_splits dest!: BuildService_try_trace)

lemma GetUserInfo_frame:
  "GetUserInfo e em s = (r, s1) \<Longrightarrow> Setting s1 = Setting s \<and> memcache s1 = memcache s"
  by (auto simp: GetUserInfo_def record_event_def split: prod.splits sum.splits dest: BuildService_frame)

lemma GetUserInfo_credentials:
  "GetUserInfo e em s = (r, s1) \<Longrightarrow> r \<noteq> Inl (Exception invalid_pem_message) \<Longrightarrow>
     CredentialsModel s1 = CredentialsModel s"
  by (auto simp: GetUserInfo_def record_event_def split: prod.splits sum.splits dest: BuildService_credentials)

lemma GetUserInfo_trace:
  "GetUserInfo e em s = (r, s1) \<Longrightarrow>
     \<exists>evs. trace s1 = trace s @ evs \<and> filter is_cache_access evs = [] \<and>
       filter is_members_list evs = []"
  by (auto simp: GetUserInfo_def record_event_def split: prod.splits sum.splits dest!: BuildService_trace)

lemma BuildService_ok:
  "BuildService e c s = (Inr svc, s1) \<Longrightarrow>
     CredentialsModel s1 = CredentialsModel s \<and> Setting s1 = Setting s \<and>
     memcache s1 = memcache s \<and>
     (\<exists>evs. trace s1 = trace s @ evs \<and> filter is_cache_access evs = [] \<and>
        filter is_members_list evs = [] \<and> filter is_key_delete evs = [])"
  by (auto simp: BuildService_def split: prod.splits if_splits
      dest: BuildService_try_frame BuildService_try_trace)

lemma GetUserInfo_ok:
  "GetUserInfo e em s = (Inr info, s1) \<Longrightarrow>
     CredentialsModel s1 = CredentialsModel s \<and> Setting s1 = Setting s \<and>
     memcache s1 = memcache s \<and>
     (\<exists>evs. trace s1 = trace s @ evs \<and> filter is_cache_access evs = [] \<and>
        filter is_members_list evs = [] \<and> filter is_key_delete evs = [])"
  by (auto simp: GetUserInfo_def record_event_def split: prod.splits sum.splits
      dest!: BuildService_ok)

lemma new_events_append: "trace s1 = trace s @ evs \<Longrightarrow> new_events s s1 = evs"
  by (simp add: new_events_def)

lemma GetAdminEmails_trace_ext:
  "GetAdminEmails e s = (r, s1) \<Longrightarrow> \<exists>evs. trace s1 = trace s @ evs"
  by (auto simp: GetAdminEmails_def Let_def record_event_def memcache_set_def
      split: prod.splits sum.splits dest!: BuildService_trace)

lemma collect_emails_all2:
  "list_all2 (\<lambda>m em. py_getitem m ''email'' = Inr em) members emails \<Longrightarrow>
     collect_emails members acc = Inr (acc @ emails)"
  by (induction members emails arbitrary: acc rule: list_all2_induct) simp_all

lemmas ex_defs =
  ex_env_def ex_state_def GetUserInfo_def BuildService_def BuildService_try_def
  GetAuthorizedHttp_def record_event_def Key_delete_def authorize_def
  API_SERVICE_NAME_def DIRECTORY_API_VERSION_def

lemmas run_defs =
  ex_defs ex_user_def IsInAdminGroup_def GetAdminEmails_def memcache_set_def
  admin_cache_key_def MEMCACHE_ADMIN_KEY_def MEMCACHE_EXPIRATION_TIME_IN_SECONDS_def
  new_events_def Let_def

section \<open>Claims\<close>

subsection \<open>C1\<close>

text \<open>
  C1. For every user whose directory record has a true \<^verbatim>\<open>isAdmin\<close> flag,
  \<open>IsInAdminGroup\<close> returns true immediately after the get-user call: the final state
  is the state the get-user call left, the admin-email cache is unchanged, and the run
  holds no cache read or write and no group-members listing call.
\<close>

theorem C1_domain_admin_returns_true:
  assumes "GetUserInfo e (email u) s = (Inr (PDict kvs), s1)"
    and "map_of kvs ''isAdmin'' = Some (PBool True)"
  shows "IsInAdminGroup e u s = (Inr True, s1) \<and>
         memcache s1 = memcache s \<and>
         filter is_cache_access (new_events s s1) = [] \<and>
         filter is_members_list (new_events s s1) = []"
proof -
  have ret: "IsInAdminGroup e u s = (Inr True, s1)"
    using assms by (simp add: IsInAdminGroup_def)
  from GetUserInfo_ok [OF assms(1)] obtain evs where
    "memcache s1 = memcache s" "trace s1 = trace s @ evs"
    "filter is_cache_access evs = []" "filter is_members_list evs = []"
    by blast
  with ret show ?thesis
    by (simp add: new_events_append)
qed

text \<open>
  On the example world, \<^verbatim>\<open>root@x.com\<close> is a domain admin.
\<close>

theorem C1_domain_admin_returns_true_witness:
  "IsInAdminGroup ex_env \<lparr>email = ''root@x.com'', nickname = ''root''\<rparr> ex_state =
     (Inr True, snd (GetUserInfo ex_env ''root@x.com'' ex_state)) \<and>
   memcache (snd (GetUserInfo ex_env ''root@x.com'' ex_state)) = memcache ex_state \<and>
   filter is_cache_access (new_events ex_state (snd (GetUserInfo ex_env ''root@x.com'' ex_state))) = [] \<and>
   filter is_members_list (new_events ex_state (snd (GetUserInfo ex_env ''root@x.com'' ex_state))) = []"
proof -
  have run: "GetUserInfo ex_env (email \<lparr>email = ''root@x.com'', nickname = ''root''\<rparr>) ex_state =
      (Inr (PDict [(''primaryEmail'', PStr ''root@x.com''), (''isAdmin'', PBool True)]),
       snd (GetUserInfo ex_env ''root@x.com'' ex_state))"
    by (simp add: ex_defs)
  have flag: "map_of [(''primaryEmail'', PStr ''root@x.com''), (''isAdmin'', PBool True)] ''isAdmin''
      = Some (PBool True)"
    by simp
  from C1_domain_admin_returns_true [OF run flag] show ?thesis .
qed

subsection \<open>C2\<close>

text \<open>
  C2 as stated promises the listing, the cache entry and the answer for every cache
  miss. The module lets a failure of the listing call through (no \<^verbatim>\<open>try\<close> around
  lines 107 and 108), and nothing is cached then; an answer without
  \<^verbatim>\<open>members\<close> ends in \<^verbatim>\<open>KeyError\<close> at line 109.
\<close>

theorem C2_listing_failure_counterexample:
  "py_truthy (Setting ex_state ''admin_group'') \<and>
   memcache ex_state ''x.com:admins'' = None \<and>
   fst (IsInAdminGroup ex_env_listing_fails (ex_user ''a@x.com'') ex_state) =
     Inl (RemoteError ''quota'') \<and>
   memcache (snd (IsInAdminGroup ex_env_listing_fails (ex_user ''a@x.com'') ex_state))
     ''x.com:admins'' = None \<and>
   fst (IsInAdminGroup ex_env_empty_group (ex_user ''a@x.com'') ex_state) =
     Inl (KeyError ''members'') \<and>
   memcache (snd (IsInAdminGroup ex_env_empty_group (ex_user ''a@x.com'') ex_state))
     ''x.com:admins'' = None"
  by (simp add: ex_env_listing_fails_def ex_env_empty_group_def run_defs)

text \<open>
  C2, amended. For a user who is not a domain admin, in a domain with a configured
  \<^verbatim>\<open>admin_group\<close> and no admin-email cache entry: when the service is built and the
  listing call answers with member records (a response whose \<^verbatim>\<open>members\<close> are records
  with the \<^verbatim>\<open>email\<close> fields \<open>emails\<close>, in order), \<open>IsInAdminGroup\<close>
  makes exactly one group-members listing call, stores \<open>emails\<close> in the cache under the
  key \<^verbatim>\<open>{domain}:admins\<close> with an expiration of 600 seconds, and returns true if and
  only if the user's email is among \<open>emails\<close>.
\<close>

theorem C2_cache_miss:
  assumes "GetUserInfo e (email u) s = (Inr user_info, s1)"
    and "py_dict_get user_info ''isAdmin'' (PStr '''') = Inr is_admin"
    and "\<not> py_truthy is_admin"
    and "py_truthy (Setting s ''admin_group'')"
    and "memcache s (admin_cache_key e) = None"
    and "BuildService e None
           (record_event (MemcacheGet (admin_cache_key e))
              (record_event (SettingGet ''admin_group'') s1)) = (Inr svc, s4)"
    and "members_list e (trace s4 @ [SettingGet ''admin_group'']) svc (Setting s ''admin_group'')
           = Inr admin_group_info"
    and "py_getitem admin_group_info ''members'' = Inr ms"
    and "py_iter ms = Inr members"
    and "list_all2 (\<lambda>m em. py_getitem m ''email'' = Inr em) members emails"
  shows "fst (IsInAdminGroup e u s) = Inr (PStr (email u) \<in> set emails) \<and>
         memcache (snd (IsInAdminGroup e u s)) =
           (memcache s)(CURRENT_DOMAIN e @ '':admins'' \<mapsto> (emails, 600)) \<and>
         length (filter is_members_list (new_events s (snd (IsInAdminGroup e u s)))) = 1"
proof -
  let ?s2 = "record_event (SettingGet ''admin_group'') s1"
  let ?s3 = "record_event (MemcacheGet (admin_cache_key e)) ?s2"
  let ?s5 = "record_event (SettingGet ''admin_group'') s4"
  let ?s6 = "record_event (MembersList svc (Setting s ''admin_group'')) ?s5"
  let ?s7 = "memcache_set (admin_cache_key e) emails MEMCACHE_EXPIRATION_TIME_IN_SECONDS ?s6"
  from GetUserInfo_ok [OF assms(1)] obtain evs where ok1:
    "Setting s1 = Setting s" "memcache s1 = memcache s" "trace s1 = trace s @ evs"
    "filter is_members_list evs = []"
    by blast
  from BuildService_ok [OF assms(6)] obtain evs' where ok4:
    "Setting s4 = Setting ?s3" "memcache s4 = memcache ?s3" "trace s4 = trace ?s3 @ evs'"
    "filter is_members_list evs' = []"
    by blast
  have set4: "Setting s4 = Setting s" and mem4: "memcache s4 = memcache s"
    using ok1 ok4 by (simp_all add: record_event_def)
  have coll: "collect_emails members [] = Inr emails"
    using collect_emails_all2 [OF assms(10), of "[]"] by simp
  have ga: "GetAdminEmails e ?s3 = (Inr emails, ?s7)"
    using assms(6-9) coll set4
    by (simp add: GetAdminEmails_def Let_def record_event_def)
  have miss: "memcache ?s3 (admin_cache_key e) = None"
    using assms(5) ok1(2) by (simp add: record_event_def)
  have set2: "py_truthy (Setting ?s2 ''admin_group'')"
    using assms(4) ok1(1) by (simp add: record_event_def)
  have ret: "IsInAdminGroup e u s = (Inr (PStr (email u) \<in> set emails), ?s7)"
    using assms(1-3) set2 miss ga
    by (simp add: IsInAdminGroup_def Let_def)
  have tr: "new_events s ?s7 =
      evs @ [SettingGet ''admin_group'', MemcacheGet (admin_cache_key e)] @ evs' @
      [SettingGet ''admin_group'', MembersList svc (Setting s ''admin_group''),
       MemcacheSet (admin_cache_key e) emails MEMCACHE_EXPIRATION_TIME_IN_SECONDS]"
    using ok1(3) ok4(3) by (simp add: new_events_def record_event_def memcache_set_def)
  have key: "admin_cache_key e = CURRENT_DOMAIN e @ '':admins''"
    by (simp add: admin_cache_key_def MEMCACHE_ADMIN_KEY_def)
  have "memcache ?s7 = (memcache s)(CURRENT_DOMAIN e @ '':admins'' \<mapsto> (emails, 600))"
    using mem4 key
    by (simp add: memcache_set_def record_event_def MEMCACHE_EXPIRATION_TIME_IN_SECONDS_def)
  with ret tr ok1(4) ok4(4) show ?thesis
    by simp
qed

text \<open>
  The cache-miss example of the specification: the listing call answers
  \<^verbatim>\<open>[{"email": "a@x.com"}]\<close>, the cache ends with \<^verbatim>\<open>["a@x.com"]\<close> at 600 seconds,
  and the check is true for \<^verbatim>\<open>a@x.com\<close>.
\<close>

theorem C2_cache_miss_witness:
  "fst (IsInAdminGroup ex_env (ex_user ''a@x.com'') ex_state) = Inr True \<and>
   memcache (snd (IsInAdminGroup ex_env (ex_user ''a@x.com'') ex_state)) =
     [''x.com:admins'' \<mapsto> ([PStr ''a@x.com''], 600)] \<and>
   length (filter is_members_list
     (new_events ex_state (snd (IsInAdminGroup ex_env (ex_user ''a@x.com'') ex_state)))) = 1"
proof -
  let ?u = "ex_user ''a@x.com''"
  let ?info = "PDict [(''primaryEmail'', PStr ''a@x.com''), (''isAdmin'', PBool False)]"
  let ?s1 = "snd (GetUserInfo ex_env ''a@x.com'' ex_state)"
  let ?s3 = "record_event (MemcacheGet (admin_cache_key ex_env))
               (record_event (SettingGet ''admin_group'') ?s1)"
  let ?svc = "Service ''admin'' ''directory_v1'' (AuthorizedHttp (Credentials ''token''))"
  let ?resp = "PDict [(''members'', PList [PDict [(''email'', PStr ''a@x.com'')]])]"
  have h1: "GetUserInfo ex_env (email ?u) ex_state = (Inr ?info, ?s1)"
    by (simp add: ex_defs ex_user_def)
  have h2: "py_dict_get ?info ''isAdmin'' (PStr '''') = Inr (PBool False)"
    by simp
  have h3: "\<not> py_truthy (PBool False)"
    by simp
  have h4: "py_truthy (Setting ex_state ''admin_group'')"
    by (simp add: ex_state_def)
  have h5: "memcache ex_state (admin_cache_key ex_env) = None"
    by (simp add: ex_state_def)
  have h6: "BuildService ex_env None ?s3 = (Inr ?svc, snd (BuildService ex_env None ?s3))"
    by (simp add: ex_defs admin_cache_key_def)
  have h7: "members_list ex_env (trace (snd (BuildService ex_env None ?s3)) @ [SettingGet ''admin_group''])
      ?svc (Setting ex_state ''admin_group'') = Inr ?resp"
    by (simp add: ex_env_def)
  have h8: "py_getitem ?resp ''members'' = Inr (PList [PDict [(''email'', PStr ''a@x.com'')]])"
    by simp
  have h9: "py_iter (PList [PDict [(''email'', PStr ''a@x.com'')]]) =
      Inr [PDict [(''email'', PStr ''a@x.com'')]]"
    by simp
  have h10: "list_all2 (\<lambda>m em. py_getitem m ''email'' = Inr em)
      [PDict [(''email'', PStr ''a@x.com'')]] [PStr ''a@x.com'']"
    by simp
  from C2_cache_miss [OF h1 h2 h3 h4 h5 h6 h7 h8 h9 h10] show ?thesis
    by (simp add: ex_env_def ex_state_def ex_user_def)
qed

subsection \<open>C3\<close>

text \<open>
  C3 as stated holds for every domain. The check of the \<^verbatim>\<open>admin_group\<close> setting
  (lines 143 and 144) comes before the cache read: without the setting, a cached list that
  names the user is never looked at.
\<close>

theorem C3_unconfigured_group_counterexample:
  "memcache ex_state_cached_no_group ''x.com:admins'' = Some ([PStr ''a@x.com''], 600) \<and>
   fst (IsInAdminGroup ex_env (ex_user ''a@x.com'') ex_state_cached_no_group) =
     Inl (Exception ''You must configure ADMIN_GROUP in config.py'')"
  by (simp add: ex_state_cached_no_group_def run_defs)

text \<open>
  C3, amended. For a user who is not a domain admin, in a domain with a configured
  \<^verbatim>\<open>admin_group\<close>: if the admin-email cache entry is present, the empty list
  included, \<open>IsInAdminGroup\<close> returns true if and only if the user's email is in the
  cached list; it makes no group-members listing call and leaves the cache as it was.
\<close>

theorem C3_cache_hit:
  assumes "GetUserInfo e (email u) s = (Inr user_info, s1)"
    and "py_dict_get user_info ''isAdmin'' (PStr '''') = Inr is_admin"
    and "\<not> py_truthy is_admin"
    and "py_truthy (Setting s ''admin_group'')"
    and "memcache s (admin_cache_key e) = Some (cached_admin_emails, t)"
  shows "fst (IsInAdminGroup e u s) = Inr (PStr (email u) \<in> set cached_admin_emails) \<and>
         (cached_admin_emails = [] \<longrightarrow> fst (IsInAdminGroup e u s) = Inr False) \<and>
         filter is_members_list (new_events s (snd (IsInAdminGroup e u s))) = [] \<and>
         memcache (snd (IsInAdminGroup e u s)) = memcache s"
proof -
  from GetUserInfo_ok [OF assms(1)] obtain evs where ok:
    "Setting s1 = Setting s" "memcache s1 = memcache s" "trace s1 = trace s @ evs"
    "filter is_members_list evs = []"
    by blast
  let ?s3 = "record_event (MemcacheGet (admin_cache_key e))
               (record_event (SettingGet ''admin_group'') s1)"
  have ret: "IsInAdminGroup e u s = (Inr (PStr (email u) \<in> set cached_admin_emails), ?s3)"
    using assms ok(1,2) by (simp add: IsInAdminGroup_def Let_def record_event_def)
  have "new_events s ?s3 = evs @ [SettingGet ''admin_group'', MemcacheGet (admin_cache_key e)]"
    using ok(3) by (simp add: new_events_def record_event_def)
  with ret ok show ?thesis
    by (simp add: record_event_def)
qed

text \<open>
  The cache-hit example of the specification: with \<^verbatim>\<open>["a@x.com", "b@x.com"]\<close>
  cached, the check is true for \<^verbatim>\<open>a@x.com\<close> and false for \<^verbatim>\<open>c@x.com\<close>.
\<close>

theorem C3_cache_hit_witness:
  "fst (IsInAdminGroup ex_env (ex_user ''a@x.com'')
     (ex_state\<lparr>memcache := [''x.com:admins'' \<mapsto> ([PStr ''a@x.com'', PStr ''b@x.com''], 600)]\<rparr>))
     = Inr True \<and>
   fst (IsInAdminGroup ex_env (ex_user ''c@x.com'')
     (ex_state\<lparr>memcache := [''x.com:admins'' \<mapsto> ([PStr ''a@x.com'', PStr ''b@x.com''], 600)]\<rparr>))
     = Inr False \<and>
   filter is_members_list (new_events
     (ex_state\<lparr>memcache := [''x.com:admins'' \<mapsto> ([PStr ''a@x.com'', PStr ''b@x.com''], 600)]\<rparr>)
     (snd (IsInAdminGroup ex_env (ex_user ''a@x.com'')
       (ex_state\<lparr>memcache := [''x.com:admins'' \<mapsto> ([PStr ''a@x.com'', PStr ''b@x.com''], 600)]\<rparr>))))
     = []"
proof -
  let ?s = "ex_state\<lparr>memcache := [''x.com:admins'' \<mapsto> ([PStr ''a@x.com'', PStr ''b@x.com''], 600)]\<rparr>"
  have h1: "GetUserInfo ex_env (email (ex_user em)) ?s =
      (Inr (PDict [(''primaryEmail'', PStr em), (''isAdmin'', PBool (em = ''root@x.com''))]),
       snd (GetUserInfo ex_env em ?s))" for em
    by (simp add: ex_defs ex_user_def)
  have h2: "py_dict_get (PDict [(''primaryEmail'', PStr em), (''isAdmin'', PBool (em = ''root@x.com''))])
      ''isAdmin'' (PStr '''') = Inr (PBool (em = ''root@x.com''))" for em
    by simp
  have h3a: "\<not> py_truthy (PBool (''a@x.com'' = ''root@x.com''))"
    and h3c: "\<not> py_truthy (PBool (''c@x.com'' = ''root@x.com''))"
    by simp_all
  have h4: "py_truthy (Setting ?s ''admin_group'')"
    by (simp add: ex_state_def)
  have h5: "memcache ?s (admin_cache_key ex_env) = Some ([PStr ''a@x.com'', PStr ''b@x.com''], 600)"
    by (simp add: ex_env_def admin_cache_key_def MEMCACHE_ADMIN_KEY_def)
  from C3_cache_hit [OF h1 h2 h3a h4 h5] C3_cache_hit [OF h1 h2 h3c h4 h5] show ?thesis
    by (simp add: ex_user_def)
qed

subsection \<open>C4\<close>

text \<open>
  C4. If the get-user call made by \<open>IsInAdminGroup\<close> raises
  \<^verbatim>\<open>AccessTokenRefreshError\<close>, the stored credentials of the current domain are deleted
  and \<open>IsInAdminGroup\<close> raises \<^verbatim>\<open>SetupNeeded\<close>; the other credentials, the
  admin-email cache and the settings are as before.
\<close>

theorem C4_refresh_error_on_get_user:
  assumes "GetUserInfo e (email u) s = (Inl AccessTokenRefreshError, s1)"
  shows "IsInAdminGroup e u s =
           (Inl (SetupNeeded ''oauth token no longer valid''),
            Key_delete (CURRENT_DOMAIN e) s1) \<and>
         CredentialsModel (snd (IsInAdminGroup e u s)) =
           (CredentialsModel s)(CURRENT_DOMAIN e := None) \<and>
         memcache (snd (IsInAdminGroup e u s)) = memcache s \<and>
         Setting (snd (IsInAdminGroup e u s)) = Setting s"
proof -
  have ret: "IsInAdminGroup e u s =
      (Inl (SetupNeeded ''oauth token no longer valid''), Key_delete (CURRENT_DOMAIN e) s1)"
    using assms by (simp add: IsInAdminGroup_def)
  have "CredentialsModel s1 = CredentialsModel s"
    using GetUserInfo_credentials [OF assms] by simp
  moreover have "Setting s1 = Setting s \<and> memcache s1 = memcache s"
    using GetUserInfo_frame [OF assms] .
  ultimately show ?thesis
    using ret by (simp add: Key_delete_def record_event_def)
qed

text \<open>
  A directory whose get-user call fails on the token refresh.
\<close>

theorem C4_refresh_error_on_get_user_witness:
  "fst (IsInAdminGroup (ex_env\<lparr>users_get := \<lambda>h svc em. Inl AccessTokenRefreshError\<rparr>)
     (ex_user ''a@x.com'') ex_state) = Inl (SetupNeeded ''oauth token no longer valid'') \<and>
   CredentialsModel ex_state ''x.com'' = Some (Credentials ''token'') \<and>
   CredentialsModel (snd (IsInAdminGroup (ex_env\<lparr>users_get := \<lambda>h svc em. Inl AccessTokenRefreshError\<rparr>)
     (ex_user ''a@x.com'') ex_state)) ''x.com'' = None \<and>
   memcache (snd (IsInAdminGroup (ex_env\<lparr>users_get := \<lambda>h svc em. Inl AccessTokenRefreshError\<rparr>)
     (ex_user ''a@x.com'') ex_state)) = memcache ex_state"
proof -
  let ?e = "ex_env\<lparr>users_get := \<lambda>h svc em. Inl AccessTokenRefreshError\<rparr>"
  have h1: "GetUserInfo ?e (email (ex_user ''a@x.com'')) ex_state =
      (Inl AccessTokenRefreshError, snd (GetUserInfo ?e ''a@x.com'' ex_state))"
    by (simp add: ex_defs ex_user_def)
  from C4_refresh_error_on_get_user [OF h1] show ?thesis
    by (auto simp: ex_env_def ex_state_def)
qed

subsection \<open>C5\<close>

text \<open>
  C5. In a domain with no \<^verbatim>\<open>admin_group\<close> setting (the setting is falsy),
  \<open>IsInAdminGroup\<close> applied to a user who is not a domain admin raises the
  configuration error. The only step after the get-user call is the read of the setting:
  the run holds no cache read or write and no group-members listing call.
\<close>

theorem C5_missing_admin_group:
  assumes "GetUserInfo e (email u) s = (Inr user_info, s1)"
    and "py_dict_get user_info ''isAdmin'' (PStr '''') = Inr is_admin"
    and "\<not> py_truthy is_admin"
    and "\<not> py_truthy (Setting s ''admin_group'')"
  shows "IsInAdminGroup e u s =
           (Inl (Exception ''You must configure ADMIN_GROUP in config.py''),
            record_event (SettingGet ''admin_group'') s1) \<and>
         memcache (snd (IsInAdminGroup e u s)) = memcache s \<and>
         filter is_cache_access (new_events s (snd (IsInAdminGroup e u s))) = [] \<and>
         filter is_members_list (new_events s (snd (IsInAdminGroup e u s))) = []"
proof -
  from GetUserInfo_ok [OF assms(1)] obtain evs where ok:
    "Setting s1 = Setting s" "memcache s1 = memcache s" "trace s1 = trace s @ evs"
    "filter is_cache_access evs = []" "filter is_members_list evs = []"
    by blast
  have ret: "IsInAdminGroup e u s =
      (Inl (Exception ''You must configure ADMIN_GROUP in config.py''),
       record_event (SettingGet ''admin_group'') s1)"
    using assms ok(1) by (simp add: IsInAdminGroup_def Let_def record_event_def)
  have "new_events s (record_event (SettingGet ''admin_group'') s1) =
      evs @ [SettingGet ''admin_group'']"
    using ok(3) by (simp add: new_events_def record_event_def)
  with ret ok show ?thesis
    by (simp add: record_event_def)
qed

text \<open>
  The example world with the settings store emptied.
\<close>

theorem C5_missing_admin_group_witness:
  "fst (IsInAdminGroup ex_env (ex_user ''a@x.com'') (ex_state\<lparr>Setting := \<lambda>k. PNone\<rparr>)) =
     Inl (Exception ''You must configure ADMIN_GROUP in config.py'') \<and>
   filter is_cache_access (new_events (ex_state\<lparr>Setting := \<lambda>k. PNone\<rparr>)
     (snd (IsInAdminGroup ex_env (ex_user ''a@x.com'') (ex_state\<lparr>Setting := \<lambda>k. PNone\<rparr>)))) = [] \<and>
   filter is_members_list (new_events (ex_state\<lparr>Setting := \<lambda>k. PNone\<rparr>)
     (snd (IsInAdminGroup ex_env (ex_user ''a@x.com'') (ex_state\<lparr>Setting := \<lambda>k. PNone\<rparr>)))) = []"
proof -
  let ?s = "ex_state\<lparr>Setting := \<lambda>k. PNone\<rparr>"
  let ?info = "PDict [(''primaryEmail'', PStr ''a@x.com''), (''isAdmin'', PBool False)]"
  have h1: "GetUserInfo ex_env (email (ex_user ''a@x.com'')) ?s =
      (Inr ?info, snd (GetUserInfo ex_env ''a@x.com'' ?s))"
    by (simp add: ex_defs ex_user_def)
  have h2: "py_dict_get ?info ''isAdmin'' (PStr '''') = Inr (PBool False)"
    by simp
  have h3: "\<not> py_truthy (PBool False)"
    by simp
  have h4: "\<not> py_truthy (Setting ?s ''admin_group'')"
    by simp
  from C5_missing_admin_group [OF h1 h2 h3 h4] show ?thesis
    by auto
qed

subsection \<open>C6\<close>

text \<open>
  C6. The credential lookup of \<open>GetAuthorizedHttp\<close> is an ordered fallback chain
  that stops at the first source with credentials: credentials given by the caller are
  used directly (the store is not read); else the stored credentials of the current
  domain, if there are any; else, in service-account mode, the credentials loaded from the
  key file (a failure of the load is passed on); else \<^verbatim>\<open>SetupNeeded\<close> is raised.
\<close>

theorem C6_credential_fallback_chain:
  "GetAuthorizedHttp e (Some c) s = (Inr (authorize c), s) \<and>
   (CredentialsModel s (CURRENT_DOMAIN e) = Some c' \<longrightarrow>
      GetAuthorizedHttp e None s =
        (Inr (authorize c'), record_event (StorageGet (CURRENT_DOMAIN e)) s)) \<and>
   (CredentialsModel s (CURRENT_DOMAIN e) = None \<and> py_truthy (SERVICE_ACCOUNT e) \<longrightarrow>
      fst (GetAuthorizedHttp e None s) =
        map_sum id authorize (LoadCredentialsFromPem e (trace s @ [StorageGet (CURRENT_DOMAIN e)])) \<and>
      new_events s (snd (GetAuthorizedHttp e None s)) = [StorageGet (CURRENT_DOMAIN e), LoadPem]) \<and>
   (CredentialsModel s (CURRENT_DOMAIN e) = None \<and> \<not> py_truthy (SERVICE_ACCOUNT e) \<longrightarrow>
      GetAuthorizedHttp e None s =
        (Inl (SetupNeeded ''Credentials not in storage''),
         record_event (StorageGet (CURRENT_DOMAIN e)) s))"
  by (auto simp: GetAuthorizedHttp_def Let_def record_event_def new_events_def
      split: sum.splits)

text \<open>
  Each link of the chain on the example world.
\<close>

theorem C6_credential_fallback_chain_witness:
  "fst (GetAuthorizedHttp ex_env (Some (Credentials ''explicit'')) ex_state) =
     Inr (AuthorizedHttp (Credentials ''explicit'')) \<and>
   new_events ex_state (snd (GetAuthorizedHttp ex_env (Some (Credentials ''explicit'')) ex_state)) = [] \<and>
   fst (GetAuthorizedHttp ex_env None ex_state) = Inr (AuthorizedHttp (Credentials ''token'')) \<and>
   new_events ex_state (snd (GetAuthorizedHttp ex_env None ex_state)) = [StorageGet ''x.com''] \<and>
   fst (GetAuthorizedHttp
          (ex_env\<lparr>SERVICE_ACCOUNT := PStr ''svc@x.com'',
                   LoadCredentialsFromPem := \<lambda>h. Inr (Credentials ''pem'')\<rparr>)
          None (ex_state\<lparr>CredentialsModel := Map.empty\<rparr>)) =
     Inr (AuthorizedHttp (Credentials ''pem'')) \<and>
   fst (GetAuthorizedHttp ex_env None (ex_state\<lparr>CredentialsModel := Map.empty\<rparr>)) =
     Inl (SetupNeeded ''Credentials not in storage'')"
proof -
  let ?pem = "ex_env\<lparr>SERVICE_ACCOUNT := PStr ''svc@x.com'',
                      LoadCredentialsFromPem := \<lambda>h. Inr (Credentials ''pem'')\<rparr>"
  let ?empty = "ex_state\<lparr>CredentialsModel := Map.empty\<rparr>"
  have stored: "CredentialsModel ex_state (CURRENT_DOMAIN ex_env) = Some (Credentials ''token'')"
    by (simp add: ex_env_def ex_state_def)
  have none: "CredentialsModel ?empty (CURRENT_DOMAIN e) = None" for e
    by simp
  have sa: "py_truthy (SERVICE_ACCOUNT ?pem)" and no_sa: "\<not> py_truthy (SERVICE_ACCOUNT ex_env)"
    by (simp_all add: ex_env_def)
  have dom: "CURRENT_DOMAIN ex_env = ''x.com''"
    by (simp add: ex_env_def)
  have pem: "LoadCredentialsFromPem ?pem h = Inr (Credentials ''pem'')" for h
    by simp
  from C6_credential_fallback_chain [of ex_env "Credentials ''explicit''" ex_state "Credentials ''token''"]
    C6_credential_fallback_chain [of ?pem _ ?empty]
    C6_credential_fallback_chain [of ex_env _ ?empty]
    stored none sa no_sa
  show ?thesis
    by (auto simp: dom pem authorize_def new_events_def record_event_def)
qed

subsection \<open>C7\<close>

text \<open>
  C7. If the body of the \<^verbatim>\<open>try\<close> in \<open>BuildService\<close> fails with
  \<^verbatim>\<open>NotImplementedError\<close>, \<open>BuildService\<close> deletes the stored credentials of
  the current domain and raises the descriptive error that tells the operator to provide
  a new key. Every other outcome of the body, a failure or a service, is passed on
  unchanged, with no credentials deleted.
\<close>

theorem C7_build_failure_handling:
  assumes "BuildService_try e c s = (r, s1)"
  shows "(r = Inl NotImplementedError \<longrightarrow>
            BuildService e c s =
              (Inl (Exception invalid_pem_message), Key_delete (CURRENT_DOMAIN e) s1) \<and>
            CredentialsModel (snd (BuildService e c s)) =
              (CredentialsModel s)(CURRENT_DOMAIN e := None)) \<and>
         (r \<noteq> Inl NotImplementedError \<longrightarrow>
            BuildService e c s = (r, s1) \<and>
            CredentialsModel (snd (BuildService e c s)) = CredentialsModel s \<and>
            filter is_key_delete (new_events s (snd (BuildService e c s))) = [])"
proof -
  from BuildService_try_frame [OF assms] have cred: "CredentialsModel s1 = CredentialsModel s"
    by simp
  from BuildService_try_trace [OF assms] obtain evs where
    "trace s1 = trace s @ evs" "filter is_key_delete evs = []"
    by blast
  with assms cred show ?thesis
    by (simp add: BuildService_def Key_delete_def record_event_def new_events_def)
qed

text \<open>
  A build that fails with \<^verbatim>\<open>NotImplementedError\<close>, and one that fails on quota.
\<close>

theorem C7_build_failure_handling_witness:
  "fst (BuildService (ex_env\<lparr>build := \<lambda>h n v t. Inl NotImplementedError\<rparr>) None ex_state) =
     Inl (Exception invalid_pem_message) \<and>
   CredentialsModel
     (snd (BuildService (ex_env\<lparr>build := \<lambda>h n v t. Inl NotImplementedError\<rparr>) None ex_state))
     ''x.com'' = None \<and>
   fst (BuildService (ex_env\<lparr>build := \<lambda>h n v t. Inl (RemoteError ''quota'')\<rparr>) None ex_state) =
     Inl (RemoteError ''quota'') \<and>
   CredentialsModel
     (snd (BuildService (ex_env\<lparr>build := \<lambda>h n v t. Inl (RemoteError ''quota'')\<rparr>) None ex_state))
     ''x.com'' = Some (Credentials ''token'')"
proof -
  let ?bad = "ex_env\<lparr>build := \<lambda>h n v t. Inl NotImplementedError\<rparr>"
  let ?quota = "ex_env\<lparr>build := \<lambda>h n v t. Inl (RemoteError ''quota'')\<rparr>"
  have h1: "BuildService_try ?bad None ex_state =
      (Inl NotImplementedError, snd (BuildService_try ?bad None ex_state))"
    by (simp add: ex_defs)
  have h2: "BuildService_try ?quota None ex_state =
      (Inl (RemoteError ''quota''), snd (BuildService_try ?quota None ex_state))"
    by (simp add: ex_defs)
  have dom: "CURRENT_DOMAIN ?bad = ''x.com''"
    and st: "CredentialsModel ex_state ''x.com'' = Some (Credentials ''token'')"
    by (simp_all add: ex_env_def ex_state_def)
  from C7_build_failure_handling [OF h1] C7_build_failure_handling [OF h2] dom st
  show ?thesis
    by auto
qed

subsection \<open>C8\<close>

text \<open>
  C8 as stated says that \<open>GetUserInfo\<close> does not modify the stored credentials.
  When \<^verbatim>\<open>build\<close> fails with \<^verbatim>\<open>NotImplementedError\<close>, the handler of
  \<open>BuildService\<close> (lines 90 and 91) deletes them, also on a call made by
  \<open>GetUserInfo\<close>.
\<close>

theorem C8_credentials_deleted_counterexample:
  "CredentialsModel ex_state ''x.com'' = Some (Credentials ''token'') \<and>
   CredentialsModel (snd (GetUserInfo ex_env_invalid_key ''a@x.com'' ex_state)) ''x.com'' = None"
  by (simp add: ex_env_invalid_key_def ex_defs)

text \<open>
  C8, amended. If in two successive calls of \<open>GetUserInfo\<close> for an email the service
  is built and the remote API answers with the same record, both calls return that record,
  and neither changes the admin-email cache or the stored credentials. In any run
  \<open>GetUserInfo\<close> leaves the admin-email cache alone. When the body of the
  \<^verbatim>\<open>try\<close> in \<open>BuildService\<close> fails with \<^verbatim>\<open>NotImplementedError\<close>,
  \<open>GetUserInfo\<close> fails with the invalid-credentials error and the stored credentials
  of the current domain are deleted; in every other run the stored credentials are as
  before.
\<close>

theorem C8_GetUserInfo_repeatable:
  assumes "BuildService e None s = (Inr svc1, sa)"
    and "users_get e (trace sa) svc1 user_email = Inr r"
    and "BuildService e None (snd (GetUserInfo e user_email s)) = (Inr svc2, sb)"
    and "users_get e (trace sb) svc2 user_email = Inr r"
  shows "fst (GetUserInfo e user_email s) = Inr r \<and>
         fst (GetUserInfo e user_email (snd (GetUserInfo e user_email s))) = Inr r \<and>
         memcache (snd (GetUserInfo e user_email s)) = memcache s \<and>
         CredentialsModel (snd (GetUserInfo e user_email s)) = CredentialsModel s \<and>
         memcache (snd (GetUserInfo e user_email (snd (GetUserInfo e user_email s)))) = memcache s \<and>
         CredentialsModel (snd (GetUserInfo e user_email (snd (GetUserInfo e user_email s)))) =
           CredentialsModel s \<and>
         memcache (snd (GetUserInfo e0 em0 s0)) = memcache s0 \<and>
         (fst (GetUserInfo e0 em0 s0) \<noteq> Inl (Exception invalid_pem_message) \<longrightarrow>
            CredentialsModel (snd (GetUserInfo e0 em0 s0)) = CredentialsModel s0) \<and>
         (fst (BuildService_try e0 None s0) \<noteq> Inl NotImplementedError \<longrightarrow>
            CredentialsModel (snd (GetUserInfo e0 em0 s0)) = CredentialsModel s0) \<and>
         (fst (BuildService_try e0 None s0) = Inl NotImplementedError \<longrightarrow>
            fst (GetUserInfo e0 em0 s0) = Inl (Exception invalid_pem_message) \<and>
            CredentialsModel (snd (GetUserInfo e0 em0 s0)) =
              (CredentialsModel s0)(CURRENT_DOMAIN e0 := None))"
proof -
  let ?s1 = "record_event (UsersGet svc1 user_email) sa"
  let ?s2 = "record_event (UsersGet svc2 user_email) sb"
  have run1: "GetUserInfo e user_email s = (Inr r, ?s1)"
    using assms(1,2) by (simp add: GetUserInfo_def)
  have run2: "GetUserInfo e user_email ?s1 = (Inr r, ?s2)"
    using assms(3,4) run1 by (simp add: GetUserInfo_def)
  from GetUserInfo_ok [OF run1] have f1:
    "memcache ?s1 = memcache s" "CredentialsModel ?s1 = CredentialsModel s"
    by simp_all
  from GetUserInfo_ok [OF run2] have f2:
    "memcache ?s2 = memcache ?s1" "CredentialsModel ?s2 = CredentialsModel ?s1"
    by simp_all
  have g1: "memcache (snd (GetUserInfo e0 em0 s0)) = memcache s0"
    using GetUserInfo_frame [of e0 em0 s0] by (cases "GetUserInfo e0 em0 s0") simp
  have g2: "CredentialsModel (snd (GetUserInfo e0 em0 s0)) = CredentialsModel s0"
    if "fst (GetUserInfo e0 em0 s0) \<noteq> Inl (Exception invalid_pem_message)"
    using GetUserInfo_credentials [of e0 em0 s0] that by (cases "GetUserInfo e0 em0 s0") simp
  obtain rt st where bt: "BuildService_try e0 None s0 = (rt, st)"
    by (cases "BuildService_try e0 None s0") auto
  from BuildService_try_frame [OF bt] have cst: "CredentialsModel st = CredentialsModel s0"
    by simp
  have g3: "CredentialsModel (snd (GetUserInfo e0 em0 s0)) = CredentialsModel s0"
    if "fst (BuildService_try e0 None s0) \<noteq> Inl NotImplementedError"
    using that bt cst
    by (auto simp: GetUserInfo_def BuildService_def record_event_def split: sum.splits)
  have g4: "fst (GetUserInfo e0 em0 s0) = Inl (Exception invalid_pem_message) \<and>
      CredentialsModel (snd (GetUserInfo e0 em0 s0)) =
        (CredentialsModel s0)(CURRENT_DOMAIN e0 := None)"
    if "fst (BuildService_try e0 None s0) = Inl NotImplementedError"
    using that bt cst
    by (simp add: GetUserInfo_def BuildService_def Key_delete_def record_event_def)
  show ?thesis
    using run1 run2 f1 f2 g1 g2 g3 g4 by simp
qed

text \<open>
  Two successive calls on the example world, and one call with an unusable key file.
\<close>

theorem C8_GetUserInfo_repeatable_witness:
  "fst (GetUserInfo ex_env ''a@x.com'' ex_state) =
     Inr (PDict [(''primaryEmail'', PStr ''a@x.com''), (''isAdmin'', PBool False)]) \<and>
   fst (GetUserInfo ex_env ''a@x.com'' (snd (GetUserInfo ex_env ''a@x.com'' ex_state))) =
     Inr (PDict [(''primaryEmail'', PStr ''a@x.com''), (''isAdmin'', PBool False)]) \<and>
   memcache (snd (GetUserInfo ex_env ''a@x.com'' (snd (GetUserInfo ex_env ''a@x.com'' ex_state)))) =
     memcache ex_state \<and>
   CredentialsModel
     (snd (GetUserInfo ex_env ''a@x.com'' (snd (GetUserInfo ex_env ''a@x.com'' ex_state)))) =
     CredentialsModel ex_state \<and>
   fst (GetUserInfo ex_env_invalid_key ''a@x.com'' ex_state) =
     Inl (Exception invalid_pem_message) \<and>
   CredentialsModel (snd (GetUserInfo ex_env_invalid_key ''a@x.com'' ex_state)) =
     (CredentialsModel ex_state)(''x.com'' := None)"
proof -
  let ?svc = "Service ''admin'' ''directory_v1'' (AuthorizedHttp (Credentials ''token''))"
  let ?r = "PDict [(''primaryEmail'', PStr ''a@x.com''), (''isAdmin'', PBool False)]"
  let ?s1 = "snd (GetUserInfo ex_env ''a@x.com'' ex_state)"
  have h1: "BuildService ex_env None ex_state = (Inr ?svc, snd (BuildService ex_env None ex_state))"
    by (simp add: ex_defs)
  have h2: "users_get ex_env h ?svc ''a@x.com'' = Inr ?r" for h
    by (simp add: ex_env_def)
  have h3: "BuildService ex_env None ?s1 = (Inr ?svc, snd (BuildService ex_env None ?s1))"
    by (simp add: ex_defs)
  have bad: "fst (BuildService_try ex_env_invalid_key None ex_state) = Inl NotImplementedError"
    by (simp add: ex_env_invalid_key_def ex_defs)
  have dom: "CURRENT_DOMAIN ex_env_invalid_key = ''x.com''"
    by (simp add: ex_env_invalid_key_def ex_env_def)
  from C8_GetUserInfo_repeatable [OF h1 h2 h3 h2, of ex_env_invalid_key "''a@x.com''" ex_state]
    bad dom
  show ?thesis
    by simp
qed

subsection \<open>C9\<close>

text \<open>
  C9. If the group-members listing call on the cache-miss path of
  \<open>IsInAdminGroup\<close> raises \<^verbatim>\<open>AccessTokenRefreshError\<close>, the caller gets that
  error unchanged (not \<^verbatim>\<open>SetupNeeded\<close>); the stored credentials are as before, no
  datastore key is deleted, and the cache is not written.
\<close>

theorem C9_refresh_error_on_listing:
  assumes "GetUserInfo e (email u) s = (Inr user_info, s1)"
    and "py_dict_get user_info ''isAdmin'' (PStr '''') = Inr is_admin"
    and "\<not> py_truthy is_admin"
    and "py_truthy (Setting s ''admin_group'')"
    and "memcache s (admin_cache_key e) = None"
    and "BuildService e None
           (record_event (MemcacheGet (admin_cache_key e))
              (record_event (SettingGet ''admin_group'') s1)) = (Inr svc, s4)"
    and "members_list e (trace s4 @ [SettingGet ''admin_group'']) svc (Setting s ''admin_group'')
           = Inl AccessTokenRefreshError"
  shows "fst (IsInAdminGroup e u s) = Inl AccessTokenRefreshError \<and>
         CredentialsModel (snd (IsInAdminGroup e u s)) = CredentialsModel s \<and>
         filter is_key_delete (new_events s (snd (IsInAdminGroup e u s))) = [] \<and>
         memcache (snd (IsInAdminGroup e u s)) = memcache s"
proof -
  let ?s2 = "record_event (SettingGet ''admin_group'') s1"
  let ?s3 = "record_event (MemcacheGet (admin_cache_key e)) ?s2"
  let ?s5 = "record_event (SettingGet ''admin_group'') s4"
  let ?s6 = "record_event (MembersList svc (Setting s ''admin_group'')) ?s5"
  from GetUserInfo_ok [OF assms(1)] obtain evs where ok1:
    "CredentialsModel s1 = CredentialsModel s" "Setting s1 = Setting s"
    "memcache s1 = memcache s" "trace s1 = trace s @ evs" "filter is_key_delete evs = []"
    by blast
  from BuildService_ok [OF assms(6)] obtain evs' where ok4:
    "CredentialsModel s4 = CredentialsModel ?s3" "Setting s4 = Setting ?s3"
    "memcache s4 = memcache ?s3" "trace s4 = trace ?s3 @ evs'" "filter is_key_delete evs' = []"
    by blast
  have set4: "Setting s4 = Setting s" and mem4: "memcache s4 = memcache s"
    and cred4: "CredentialsModel s4 = CredentialsModel s"
    using ok1 ok4 by (simp_all add: record_event_def)
  have ga: "GetAdminEmails e ?s3 = (Inl AccessTokenRefreshError, ?s6)"
    using assms(6,7) set4
    by (simp add: GetAdminEmails_def Let_def record_event_def)
  have miss: "memcache ?s3 (admin_cache_key e) = None"
    using assms(5) ok1(3) by (simp add: record_event_def)
  have set2: "py_truthy (Setting ?s2 ''admin_group'')"
    using assms(4) ok1(2) by (simp add: record_event_def)
  have ret: "IsInAdminGroup e u s = (Inl AccessTokenRefreshError, ?s6)"
    using assms(1-3) set2 miss ga
    by (simp add: IsInAdminGroup_def Let_def)
  have tr: "new_events s ?s6 =
      evs @ [SettingGet ''admin_group'', MemcacheGet (admin_cache_key e)] @ evs' @
      [SettingGet ''admin_group'', MembersList svc (Setting s ''admin_group'')]"
    using ok1(4) ok4(4) by (simp add: new_events_def record_event_def)
  show ?thesis
    using ret tr ok1(5) ok4(5) mem4 cred4 by (simp add: record_event_def)
qed

text \<open>
  A directory whose listing call fails on the token refresh.
\<close>

theorem C9_refresh_error_on_listing_witness:
  "fst (IsInAdminGroup (ex_env\<lparr>members_list := \<lambda>h svc g. Inl AccessTokenRefreshError\<rparr>)
     (ex_user ''a@x.com'') ex_state) = Inl AccessTokenRefreshError \<and>
   CredentialsModel (snd (IsInAdminGroup (ex_env\<lparr>members_list := \<lambda>h svc g. Inl AccessTokenRefreshError\<rparr>)
     (ex_user ''a@x.com'') ex_state)) ''x.com'' = Some (Credentials ''token'') \<and>
   filter is_key_delete (new_events ex_state
     (snd (IsInAdminGroup (ex_env\<lparr>members_list := \<lambda>h svc g. Inl AccessTokenRefreshError\<rparr>)
       (ex_user ''a@x.com'') ex_state))) = []"
proof -
  let ?e = "ex_env\<lparr>members_list := \<lambda>h svc g. Inl AccessTokenRefreshError\<rparr>"
  let ?info = "PDict [(''primaryEmail'', PStr ''a@x.com''), (''isAdmin'', PBool False)]"
  let ?s1 = "snd (GetUserInfo ?e ''a@x.com'' ex_state)"
  let ?s3 = "record_event (MemcacheGet (admin_cache_key ?e))
               (record_event (SettingGet ''admin_group'') ?s1)"
  let ?svc = "Service ''admin'' ''directory_v1'' (AuthorizedHttp (Credentials ''token''))"
  have h1: "GetUserInfo ?e (email (ex_user ''a@x.com'')) ex_state = (Inr ?info, ?s1)"
    by (simp add: ex_defs ex_user_def)
  have h2: "py_dict_get ?info ''isAdmin'' (PStr '''') = Inr (PBool False)"
    by simp
  have h3: "\<not> py_truthy (PBool False)"
    by simp
  have h4: "py_truthy (Setting ex_state ''admin_group'')"
    by (simp add: ex_state_def)
  have h5: "memcache ex_state (admin_cache_key ?e) = None"
    by (simp add: ex_state_def)
  have h6: "BuildService ?e None ?s3 = (Inr ?svc, snd (BuildService ?e None ?s3))"
    by (simp add: ex_defs admin_cache_key_def)
  have h7: "members_list ?e (trace (snd (BuildService ?e None ?s3)) @ [SettingGet ''admin_group''])
      ?svc (Setting ex_state ''admin_group'') = Inl AccessTokenRefreshError"
    by simp
  have st: "CredentialsModel ex_state ''x.com'' = Some (Credentials ''token'')"
    by (simp add: ex_state_def)
  from C9_refresh_error_on_listing [OF h1 h2 h3 h4 h5 h6 h7] st show ?thesis
    by auto
qed

subsection \<open>C10\<close>

text \<open>
  C10. The domain-admin test is a truth-value test of
  \<^verbatim>\<open>user_info.get('isAdmin', '')\<close>. For a record with any truthy value for the key, a
  non-empty string for one, \<open>IsInAdminGroup\<close> returns true at once. For a record
  without the key, or with a falsy value for it (\<^verbatim>\<open>False\<close>, the empty string,
  \<^verbatim>\<open>0\<close>, \<^verbatim>\<open>None\<close>), the check goes on to the group-membership path, and its
  outcome is that path's: the next step is the read of the \<^verbatim>\<open>admin_group\<close>
  setting; without the setting the configuration error is raised; with it and a cached
  list, the answer is membership in the cached list; with it and no cached list, the
  answer is membership in the list that \<open>GetAdminEmails\<close> returns, or the error it
  raises.
\<close>

theorem C10_isAdmin_truthiness:
  assumes "GetUserInfo e (email u) s = (Inr (PDict kvs), s1)"
  shows "((map_of kvs ''isAdmin'' = None \<or>
           (\<exists>v. map_of kvs ''isAdmin'' = Some v \<and> \<not> py_truthy v)) \<longrightarrow>
            take 1 (new_events s1 (snd (IsInAdminGroup e u s))) = [SettingGet ''admin_group'']) \<and>
         ((\<exists>v. map_of kvs ''isAdmin'' = Some v \<and> py_truthy v) \<longrightarrow>
            IsInAdminGroup e u s = (Inr True, s1)) \<and>
         \<not> py_truthy (PBool False) \<and> \<not> py_truthy (PStr '''') \<and> \<not> py_truthy (PInt 0) \<and>
         \<not> py_truthy PNone \<and> (str \<noteq> '''' \<longrightarrow> py_truthy (PStr str)) \<and>
         ((map_of kvs ''isAdmin'' = None \<or>
           (\<exists>v. map_of kvs ''isAdmin'' = Some v \<and> \<not> py_truthy v)) \<longrightarrow>
            (\<not> py_truthy (Setting s ''admin_group'') \<longrightarrow>
               IsInAdminGroup e u s =
                 (Inl (Exception ''You must configure ADMIN_GROUP in config.py''),
                  record_event (SettingGet ''admin_group'') s1)) \<and>
            (py_truthy (Setting s ''admin_group'') \<longrightarrow>
               (\<forall>cached t. memcache s (admin_cache_key e) = Some (cached, t) \<longrightarrow>
                  IsInAdminGroup e u s =
                    (Inr (PStr (email u) \<in> set cached),
                     record_event (MemcacheGet (admin_cache_key e))
                       (record_event (SettingGet ''admin_group'') s1))) \<and>
               (memcache s (admin_cache_key e) = None \<longrightarrow>
                  IsInAdminGroup e u s =
                    (map_sum id (\<lambda>admin_emails. PStr (email u) \<in> set admin_emails)
                       (fst (GetAdminEmails e
                          (record_event (MemcacheGet (admin_cache_key e))
                             (record_event (SettingGet ''admin_group'') s1)))),
                     snd (GetAdminEmails e
                          (record_event (MemcacheGet (admin_cache_key e))
                             (record_event (SettingGet ''admin_group'') s1)))))))"
proof -
  let ?s2 = "record_event (SettingGet ''admin_group'') s1"
  let ?s3 = "record_event (MemcacheGet (admin_cache_key e)) ?s2"
  let ?falsy = "map_of kvs ''isAdmin'' = None \<or>
    (\<exists>v. map_of kvs ''isAdmin'' = Some v \<and> \<not> py_truthy v)"
  from GetUserInfo_ok [OF assms] have fr: "Setting s1 = Setting s" "memcache s1 = memcache s"
    by simp_all
  have truthy: "IsInAdminGroup e u s = (Inr True, s1)"
    if "map_of kvs ''isAdmin'' = Some v" "py_truthy v" for v
    using assms that by (simp add: IsInAdminGroup_def)
  have get: "\<exists>v. py_dict_get (PDict kvs) ''isAdmin'' (PStr '''') = Inr v \<and> \<not> py_truthy v"
    if ?falsy
    using that by auto
  have first: "take 1 (new_events s1 (snd (IsInAdminGroup e u s))) = [SettingGet ''admin_group'']"
    if f: ?falsy
  proof -
    from get [OF f] obtain v where
      v: "py_dict_get (PDict kvs) ''isAdmin'' (PStr '''') = Inr v" "\<not> py_truthy v"
      by blast
    obtain r s4 where ga: "GetAdminEmails e ?s3 = (r, s4)"
      by (cases "GetAdminEmails e ?s3") auto
    from GetAdminEmails_trace_ext [OF ga] obtain evs where
      tr: "trace s4 = trace ?s3 @ evs" by blast
    have "\<exists>evs'. trace (snd (IsInAdminGroup e u s)) = trace s1 @ SettingGet ''admin_group'' # evs'"
      using assms v ga tr
      by (auto simp: IsInAdminGroup_def Let_def record_event_def split: option.splits sum.splits)
    then show ?thesis
      by (auto simp: new_events_def)
  qed
  have unconfigured: "IsInAdminGroup e u s =
      (Inl (Exception ''You must configure ADMIN_GROUP in config.py''), ?s2)"
    if f: ?falsy and ns: "\<not> py_truthy (Setting s ''admin_group'')"
  proof -
    from get [OF f] obtain v where
      v: "py_dict_get (PDict kvs) ''isAdmin'' (PStr '''') = Inr v" "\<not> py_truthy v"
      by blast
    have "\<not> py_truthy (Setting ?s2 ''admin_group'')"
      using ns fr(1) by (simp add: record_event_def)
    with assms v show ?thesis
      by (simp add: IsInAdminGroup_def Let_def)
  qed
  have hit: "IsInAdminGroup e u s = (Inr (PStr (email u) \<in> set cached), ?s3)"
    if f: ?falsy and st: "py_truthy (Setting s ''admin_group'')"
      and c: "memcache s (admin_cache_key e) = Some (cached, t)" for cached t
  proof -
    from get [OF f] obtain v where
      v: "py_dict_get (PDict kvs) ''isAdmin'' (PStr '''') = Inr v" "\<not> py_truthy v"
      by blast
    have "py_truthy (Setting ?s2 ''admin_group'')"
      and "memcache ?s3 (admin_cache_key e) = Some (cached, t)"
      using st c fr by (simp_all add: record_event_def)
    with assms v show ?thesis
      by (simp add: IsInAdminGroup_def Let_def)
  qed
  have miss: "IsInAdminGroup e u s =
      (map_sum id (\<lambda>admin_emails. PStr (email u) \<in> set admin_emails)
         (fst (GetAdminEmails e ?s3)), snd (GetAdminEmails e ?s3))"
    if f: ?falsy and st: "py_truthy (Setting s ''admin_group'')"
      and c: "memcache s (admin_cache_key e) = None"
  proof -
    from get [OF f] obtain v where
      v: "py_dict_get (PDict kvs) ''isAdmin'' (PStr '''') = Inr v" "\<not> py_truthy v"
      by blast
    have "py_truthy (Setting ?s2 ''admin_group'')"
      and "memcache ?s3 (admin_cache_key e) = None"
      using st c fr by (simp_all add: record_event_def)
    with assms v show ?thesis
      by (cases "GetAdminEmails e ?s3")
        (simp add: IsInAdminGroup_def Let_def split: sum.splits)
  qed
  have easy: "\<not> py_truthy (PBool False) \<and> \<not> py_truthy (PStr '''') \<and> \<not> py_truthy (PInt 0) \<and>
      \<not> py_truthy PNone \<and> (str \<noteq> '''' \<longrightarrow> py_truthy (PStr str))"
    by simp
  show ?thesis
    using truthy first unconfigured hit miss easy by blast
qed

text \<open>
  Records with \<^verbatim>\<open>"yes"\<close>, with no \<^verbatim>\<open>isAdmin\<close> key, and with \<^verbatim>\<open>0\<close>; the
  last two take the group path to its three ends.
\<close>

theorem C10_isAdmin_truthiness_witness:
  "IsInAdminGroup (ex_env\<lparr>users_get := \<lambda>h svc em. Inr (PDict [(''isAdmin'', PStr ''yes'')])\<rparr>)
     (ex_user ''a@x.com'') ex_state =
     (Inr True,
      snd (GetUserInfo (ex_env\<lparr>users_get := \<lambda>h svc em. Inr (PDict [(''isAdmin'', PStr ''yes'')])\<rparr>)
        ''a@x.com'' ex_state)) \<and>
   take 1 (new_events
     (snd (GetUserInfo (ex_env\<lparr>users_get := \<lambda>h svc em. Inr (PDict [(''primaryEmail'', PStr em)])\<rparr>)
        ''a@x.com'' ex_state))
     (snd (IsInAdminGroup (ex_env\<lparr>users_get := \<lambda>h svc em. Inr (PDict [(''primaryEmail'', PStr em)])\<rparr>)
        (ex_user ''a@x.com'') ex_state))) = [SettingGet ''admin_group''] \<and>
   take 1 (new_events
     (snd (GetUserInfo (ex_env\<lparr>users_get := \<lambda>h svc em. Inr (PDict [(''isAdmin'', PInt 0)])\<rparr>)
        ''a@x.com'' ex_state))
     (snd (IsInAdminGroup (ex_env\<lparr>users_get := \<lambda>h svc em. Inr (PDict [(''isAdmin'', PInt 0)])\<rparr>)
        (ex_user ''a@x.com'') ex_state))) = [SettingGet ''admin_group''] \<and>
   fst (IsInAdminGroup (ex_env\<lparr>users_get := \<lambda>h svc em. Inr (PDict [(''primaryEmail'', PStr em)])\<rparr>)
        (ex_user ''a@x.com'') ex_state) = Inr True \<and>
   fst (IsInAdminGroup (ex_env\<lparr>users_get := \<lambda>h svc em. Inr (PDict [(''primaryEmail'', PStr em)])\<rparr>)
        (ex_user ''c@x.com'') ex_state) = Inr False \<and>
   fst (IsInAdminGroup (ex_env\<lparr>users_get := \<lambda>h svc em. Inr (PDict [(''isAdmin'', PInt 0)])\<rparr>)
        (ex_user ''a@x.com'') ex_state_cached_no_group) =
     Inl (Exception ''You must configure ADMIN_GROUP in config.py'')"
proof -
  let ?yes = "ex_env\<lparr>users_get := \<lambda>h svc em. Inr (PDict [(''isAdmin'', PStr ''yes'')])\<rparr>"
  let ?lacks = "ex_env\<lparr>users_get := \<lambda>h svc em. Inr (PDict [(''primaryEmail'', PStr em)])\<rparr>"
  let ?zero = "ex_env\<lparr>users_get := \<lambda>h svc em. Inr (PDict [(''isAdmin'', PInt 0)])\<rparr>"
  have h1: "GetUserInfo ?yes (email (ex_user ''a@x.com'')) ex_state =
      (Inr (PDict [(''isAdmin'', PStr ''yes'')]), snd (GetUserInfo ?yes ''a@x.com'' ex_state))"
    by (simp add: ex_defs ex_user_def)
  have h2: "GetUserInfo ?lacks (email (ex_user em)) ex_state =
      (Inr (PDict [(''primaryEmail'', PStr em)]), snd (GetUserInfo ?lacks em ex_state))" for em
    by (simp add: ex_defs ex_user_def)
  have h3: "GetUserInfo ?zero (email (ex_user ''a@x.com'')) s =
      (Inr (PDict [(''isAdmin'', PInt 0)]), snd (GetUserInfo ?zero ''a@x.com'' s))"
    if "CredentialsModel s ''x.com'' = Some (Credentials ''token'')" for s
    using that by (simp add: ex_defs ex_user_def)
  have st: "CredentialsModel ex_state ''x.com'' = Some (Credentials ''token'')"
    "CredentialsModel ex_state_cached_no_group ''x.com'' = Some (Credentials ''token'')"
    by (simp_all add: ex_state_cached_no_group_def ex_state_def)
  have set: "py_truthy (Setting ex_state ''admin_group'')"
    "\<not> py_truthy (Setting ex_state_cached_no_group ''admin_group'')"
    by (simp_all add: ex_state_cached_no_group_def ex_state_def)
  have miss: "memcache ex_state (admin_cache_key ?lacks) = None"
    by (simp add: ex_state_def)
  have ga: "fst (GetAdminEmails ?lacks
      (record_event (MemcacheGet (admin_cache_key ?lacks))
         (record_event (SettingGet ''admin_group'') (snd (GetUserInfo ?lacks em ex_state))))) =
      Inr [PStr ''a@x.com'']" for em
    by (simp add: ex_defs GetAdminEmails_def memcache_set_def admin_cache_key_def Let_def)
  from C10_isAdmin_truthiness [OF h1] have a: "IsInAdminGroup ?yes (ex_user ''a@x.com'') ex_state =
      (Inr True, snd (GetUserInfo ?yes ''a@x.com'' ex_state))"
    by simp
  from C10_isAdmin_truthiness [OF h2, of "''a@x.com''"] have b: "take 1 (new_events
      (snd (GetUserInfo ?lacks ''a@x.com'' ex_state))
      (snd (IsInAdminGroup ?lacks (ex_user ''a@x.com'') ex_state))) = [SettingGet ''admin_group'']"
    by simp
  from C10_isAdmin_truthiness [OF h3 [OF st(1)]] have c: "take 1 (new_events
      (snd (GetUserInfo ?zero ''a@x.com'' ex_state))
      (snd (IsInAdminGroup ?zero (ex_user ''a@x.com'') ex_state))) = [SettingGet ''admin_group'']"
    by simp
  from C10_isAdmin_truthiness [OF h2, of "''a@x.com''"] set(1) miss ga [of "''a@x.com''"]
  have d: "fst (IsInAdminGroup ?lacks (ex_user ''a@x.com'') ex_state) = Inr True"
    by (simp add: ex_user_def)
  from C10_isAdmin_truthiness [OF h2, of "''c@x.com''"] set(1) miss ga [of "''c@x.com''"]
  have d': "fst (IsInAdminGroup ?lacks (ex_user ''c@x.com'') ex_state) = Inr False"
    by (simp add: ex_user_def)
  from C10_isAdmin_truthiness [OF h3 [OF st(2)]] set(2)
  have e: "fst (IsInAdminGroup ?zero (ex_user ''a@x.com'') ex_state_cached_no_group) =
      Inl (Exception ''You must configure ADMIN_GROUP in config.py'')"
    by simp
  from a b c d d' e show ?thesis
    by simp
qed

end
